theory Spec2Isabelle
  imports Main "HOL-Library.AList"
begin

section \<open>The Python object model used by \<open>hikari/internal_utilities/delegate.py\<close>\<close>

text \<open>
  The module mutates classes (\<open>setattr(cls, ...)\<close>) and its descriptor reads attributes of
  instances (\<open>getattr(instance, ...)\<close>), so the embedding carries an explicit store: a table
  of classes and a table of instances.  Classes and instances are referred to by number.

  \<open>DelegatedProperty\<close> is the class of lines 37-56: an instance carries the two
  fields set by \<open>__init__\<close> and the \<open>__doc__\<close> assigned at line 96.  A value is one
  of the kinds of object the module can meet as an attribute value; \<open>PyDescr\<close> is an
  instance of \<open>DelegatedProperty\<close>, \<open>PyObj\<close> an instance of a class of the store,
  \<open>PyFunction\<close> what \<open>inspect.isfunction\<close> accepts, \<open>PyMethod\<close> what
  \<open>inspect.ismethod\<close> accepts (a bound method).  \<open>PyDict\<close> stands
  for a dictionary with string keys, of which only the keys are kept (this is what
  \<open>__annotations__\<close> holds; iterating a dictionary yields its keys).  A frozenset is
  kept as the list of its elements; its meaning is the set of that list.
\<close>

type_synonym cls_id = nat
type_synonym obj_id = nat

datatype delegated_property =
  DelegatedProperty (self_magic_field: string) (self_delegated_member_name: string)
    (self_doc: string)

datatype pyval =
    PyNone
  | PyInt int
  | PyStr string
  | PyFunction string
  | PyMethod string
  | PyClass cls_id
  | PyObj obj_id
  | PyDescr delegated_property
  | PyTuple "pyval list"
  | PyFrozenSet "pyval list"
  | PyDict "string list"

datatype error =
  ConfigurationError | TypeError | AttributeError | RecursionError | NotImplementedError

text \<open>
  A class has its \<open>__name__\<close>, the tail of its method resolution order (its proper
  ancestors, nearest first; the class itself heads its own MRO and \<open>object\<close> is left out)
  and its own \<open>__dict__\<close>.  A dictionary is an association list read by \<open>map_of\<close>
  (the first entry of a key is the live one) and written by \<open>AList.update\<close> (an existing
  key keeps its place, a new key goes to the end), which is how a Python \<open>dict\<close> behaves.
  An instance has its class and its own \<open>__dict__\<close>.
\<close>

record pyclass =
  cls_name :: string
  cls_ancestors :: "cls_id list"
  cls_dict :: "(string \<times> pyval) list"

record pyobj =
  obj_class :: cls_id
  obj_dict :: "(string \<times> pyval) list"

record world =
  py_classes :: "cls_id \<Rightarrow> pyclass"
  py_objects :: "obj_id \<Rightarrow> pyobj"

definition mro :: "world \<Rightarrow> cls_id \<Rightarrow> cls_id list" where
  "mro w c = c # cls_ancestors (py_classes w c)"

text \<open>
  \<open>issubclass(cls, base)\<close>: the base occurs in the MRO of the class.  (Virtual subclasses,
  registered with an abstract base class without inheriting from it, are not modelled.)
\<close>

definition issubclass :: "world \<Rightarrow> cls_id \<Rightarrow> cls_id \<Rightarrow> bool" where
  "issubclass w c base = (base \<in> set (mro w c))"

text \<open>Attribute lookup on a type: the first class of the MRO whose \<open>__dict__\<close> has the name.\<close>

fun lookup_mro :: "world \<Rightarrow> cls_id list \<Rightarrow> string \<Rightarrow> pyval option" where
  "lookup_mro w [] name = None"
| "lookup_mro w (c # cs) name =
     (case map_of (cls_dict (py_classes w c)) name of
        Some v \<Rightarrow> Some v
      | None \<Rightarrow> lookup_mro w cs name)"

definition type_lookup :: "world \<Rightarrow> cls_id \<Rightarrow> string \<Rightarrow> pyval option" where
  "type_lookup w c name = lookup_mro w (mro w c) name"

text \<open>\<open>setattr(cls, name, value)\<close> writes the class's own \<open>__dict__\<close>.\<close>

definition setattr_cls :: "world \<Rightarrow> cls_id \<Rightarrow> string \<Rightarrow> pyval \<Rightarrow> world" where
  "setattr_cls w c name v =
     w\<lparr>py_classes := (py_classes w)
          (c := (py_classes w c)\<lparr>cls_dict := AList.update name v (cls_dict (py_classes w c))\<rparr>)\<rparr>"

text \<open>
  Iteration (\<open>*x\<close> in a display): tuples and frozensets yield their elements, a dictionary
  its keys, a string its characters; nothing else in the value universe is iterable.
\<close>

fun iterate :: "pyval \<Rightarrow> error + pyval list" where
  "iterate (PyTuple xs) = Inr xs"
| "iterate (PyFrozenSet xs) = Inr xs"
| "iterate (PyDict ks) = Inr (map PyStr ks)"
| "iterate (PyStr s) = Inr (map (\<lambda>c. PyStr [c]) s)"
| "iterate _ = Inl TypeError"

text \<open>Elements of a set must be hashable: dictionaries are not, tuples are if their elements are.\<close>

fun hashable :: "pyval \<Rightarrow> bool" where
  "hashable (PyDict ks) = False"
| "hashable (PyTuple xs) = (\<forall>x \<in> set xs. hashable x)"
| "hashable _ = True"

text \<open>The set display \<open>{*x}\<close>.\<close>

definition set_display :: "pyval \<Rightarrow> error + pyval list" where
  "set_display x =
     (case iterate x of
        Inl e \<Rightarrow> Inl e
      | Inr xs \<Rightarrow> if (\<forall>y \<in> set xs. hashable y) then Inr (remdups xs) else Inl TypeError)"

section \<open>\<open>DelegatedProperty.__get__\<close> (lines 51-56)\<close>

text \<open>
  The built-in \<open>getattr\<close> that the method calls is a parameter here; \<open>py_getattr\<close> below
  ties the knot.
\<close>

definition DelegatedProperty_get ::
  "(pyval \<Rightarrow> string \<Rightarrow> error + pyval) \<Rightarrow> delegated_property \<Rightarrow> pyval \<Rightarrow> error + pyval" where
  "DelegatedProperty_get getattr self instance =
     (if instance \<noteq> PyNone then
        (case getattr instance (self_magic_field self) of
           Inl e \<Rightarrow> Inl e
         | Inr delegated_object \<Rightarrow> getattr delegated_object (self_delegated_member_name self))
      else Inr (PyDescr self))"

text \<open>
  Reading an attribute, \<open>getattr(x, name)\<close>, with \<open>n\<close> Python frames left on the stack.

  On an instance, \<open>object.__getattribute__\<close> looks the name up on the type; a data
  descriptor found there (one that defines \<open>__set__\<close> or \<open>__delete__\<close>) would win, but no
  value of the universe is one: \<open>DelegatedProperty\<close> defines \<open>__init__\<close> and \<open>__get__\<close>
  only.  So the instance's own \<open>__dict__\<close> comes first, then the attribute found on the
  type, through its \<open>__get__\<close> if it has one (a \<open>DelegatedProperty\<close> runs the method above
  in a new frame, a function becomes a bound method), and otherwise the read raises
  \<open>AttributeError\<close>.  On a class the MRO is searched and \<open>__get__\<close> is called with no
  instance.  Attributes of built-in values and of the metaclass are not modelled.
  Running out of frames raises \<open>RecursionError\<close>.
\<close>

fun py_getattr :: "nat \<Rightarrow> world \<Rightarrow> pyval \<Rightarrow> string \<Rightarrow> error + pyval" where
  "py_getattr n w (PyObj h) name =
     (case map_of (obj_dict (py_objects w h)) name of
        Some v \<Rightarrow> Inr v
      | None \<Rightarrow>
          (case type_lookup w (obj_class (py_objects w h)) name of
             None \<Rightarrow> Inl AttributeError
           | Some (PyDescr p) \<Rightarrow>
               (case n of
                  0 \<Rightarrow> Inl RecursionError
                | Suc k \<Rightarrow> DelegatedProperty_get (py_getattr k w) p (PyObj h))
           | Some (PyFunction fn) \<Rightarrow> Inr (PyMethod fn)
           | Some a \<Rightarrow> Inr a))"
| "py_getattr n w (PyClass c) name =
     (case type_lookup w c name of
        None \<Rightarrow> Inl AttributeError
      | Some (PyDescr p) \<Rightarrow>
          (case n of
             0 \<Rightarrow> Inl RecursionError
           | Suc k \<Rightarrow> DelegatedProperty_get (py_getattr k w) p PyNone)
      | Some a \<Rightarrow> Inr a)"
| "py_getattr n w _ name = Inl AttributeError"

text \<open>
  Assigning an attribute of an instance, \<open>instance.name = value\<close>:
  \<open>object.__setattr__\<close> would hand the write to a \<open>__set__\<close> of the attribute found on
  the type, but no value of the universe defines one (see above), so the value goes into
  the instance's own \<open>__dict__\<close> and the statement completes.
\<close>

definition py_setattr :: "world \<Rightarrow> obj_id \<Rightarrow> string \<Rightarrow> pyval \<Rightarrow> error option \<times> world" where
  "py_setattr w h name v =
     (None, w\<lparr>py_objects := (py_objects w)
          (h := (py_objects w h)\<lparr>obj_dict := AList.update name v (obj_dict (py_objects w h))\<rparr>)\<rparr>)"

section \<open>\<open>delegate_to\<close> (lines 59-119)\<close>

definition DELEGATE_MEMBERS_FIELD :: string where
  "DELEGATE_MEMBERS_FIELD = ''___delegate_members___''"

definition DELEGATE_TYPES_FIELD :: string where
  "DELEGATE_TYPES_FIELD = ''___delegate_type_mapping___''"

definition SPECIAL_ATTRS_TO_IGNORE :: "string list" where
  "SPECIAL_ATTRS_TO_IGNORE = [''_abc_impl'']"

definition isfunction :: "pyval \<Rightarrow> bool" where
  "isfunction v = (case v of PyFunction _ \<Rightarrow> True | _ \<Rightarrow> False)"

definition ismethod :: "pyval \<Rightarrow> bool" where
  "ismethod v = (case v of PyMethod _ \<Rightarrow> True | _ \<Rightarrow> False)"

definition startswith :: "string \<Rightarrow> string \<Rightarrow> bool" where
  "startswith s p = (take (length p) s = p)"

definition should_ignore_attribute_for_field :: "string \<Rightarrow> pyval \<Rightarrow> bool" where
  "should_ignore_attribute_for_field name v =
     (isfunction v \<or> ismethod v \<or> startswith name ''__'' \<or> name \<in> set SPECIAL_ATTRS_TO_IGNORE)"

text \<open>
  Modelled from the spec: \<open>containers.EMPTY_SEQUENCE\<close> is imported from a module that is not
  among the sources.  By its name, and by the spec's ledger that starts with no bindings, it
  is the empty tuple.
\<close>

definition EMPTY_SEQUENCE :: pyval where
  "EMPTY_SEQUENCE = PyTuple []"

text \<open>
  Modelled from the spec: \<open>assertions.assert_subclasses\<close> is imported from a module that is
  not among the sources.  The spec (4.4, 7): the host type must already be a subclass of the
  delegate type; if not, fail with a \<open>ConfigurationError\<close>.
\<close>

definition assert_subclasses :: "world \<Rightarrow> cls_id \<Rightarrow> cls_id \<Rightarrow> error option" where
  "assert_subclasses w c base = (if issubclass w c base then None else Some ConfigurationError)"

text \<open>
  \<open>getattr(cls, name, default)\<close> on a class.  The attribute found along the MRO is passed
  through its \<open>__get__\<close> with no instance, which for every value of the universe gives the
  value itself (lemma \<open>py_getattr_class\<close> below), so the stored value is returned.
\<close>

definition getattr_default :: "world \<Rightarrow> cls_id \<Rightarrow> string \<Rightarrow> pyval \<Rightarrow> pyval" where
  "getattr_default w c name dflt = (case type_lookup w c name of Some v \<Rightarrow> v | None \<Rightarrow> dflt)"

text \<open>Line 91: the keys of \<open>__dict__\<close> whose entry is not to be ignored.\<close>

definition dict_fields :: "(string \<times> pyval) list \<Rightarrow> string list" where
  "dict_fields d =
     filter (\<lambda>k. case map_of d k of Some v \<Rightarrow> \<not> should_ignore_attribute_for_field k v | None \<Rightarrow> False)
       (remdups (map fst d))"

text \<open>
  Lines 91-93, the classification of the delegate type: \<open>targets\<close>.  A Python set has no
  specified order; the list fixes one and stands for its set of elements.  \<open>getattr\<close> finds
  \<open>__annotations__\<close> like any other class attribute, through the MRO, so a class without
  annotations of its own shows those of its nearest annotated ancestor (the behaviour of
  the Python versions the module was written for, 3.7 to 3.9).
\<close>

definition classify :: "world \<Rightarrow> cls_id \<Rightarrow> error + pyval list" where
  "classify w delegate_type =
     (case set_display (getattr_default w delegate_type ''__annotations__'' EMPTY_SEQUENCE) of
        Inl e \<Rightarrow> Inl e
      | Inr annotation_fields \<Rightarrow>
          Inr (remdups (map PyStr (dict_fields (cls_dict (py_classes w delegate_type)))
                        @ annotation_fields)))"

text \<open>Line 96: the f-string.\<close>

definition doc_for :: "string \<Rightarrow> string \<Rightarrow> string" where
  "doc_for type_name name = ''See :attr:`'' @ type_name @ ''.'' @ name @ ''`.''"

text \<open>
  Lines 94-99, the loop over \<open>targets\<close>, threading the store and \<open>delegated_members\<close>.
  \<open>setattr\<close> raises \<open>TypeError\<close> for a name that is not a string.
\<close>

fun install :: "string \<Rightarrow> cls_id \<Rightarrow> cls_id \<Rightarrow> pyval list \<Rightarrow> world \<Rightarrow> pyval list
    \<Rightarrow> error option \<times> world \<times> pyval list" where
  "install magic_field delegate_type cls [] w delegated_members = (None, w, delegated_members)"
| "install magic_field delegate_type cls (name # rest) w delegated_members =
     (case name of
        PyStr n \<Rightarrow>
          install magic_field delegate_type cls rest
            (setattr_cls w cls n
               (PyDescr (DelegatedProperty magic_field n
                  (doc_for (cls_name (py_classes w delegate_type)) n))))
            (List.insert name delegated_members)
      | _ \<Rightarrow> (Some TypeError, w, delegated_members))"

text \<open>
  The decorator of lines 80-105, applied to \<open>cls\<close> in the store \<open>w\<close>.  The result is the
  exception raised, if any, and the store as the call leaves it; on a normal return the
  value returned is \<open>cls\<close> itself.  \<open>|=\<close> on a set accepts a set or frozenset only.
\<close>

definition delegate_to :: "cls_id \<Rightarrow> string \<Rightarrow> cls_id \<Rightarrow> world \<Rightarrow> error option \<times> world" where
  "delegate_to delegate_type magic_field cls w =
     (case assert_subclasses w cls delegate_type of
        Some e \<Rightarrow> (Some e, w)
      | None \<Rightarrow>
          let delegated_types = getattr_default w cls DELEGATE_TYPES_FIELD EMPTY_SEQUENCE in
          (case classify w delegate_type of
             Inl e \<Rightarrow> (Some e, w)
           | Inr targets \<Rightarrow>
               (case install magic_field delegate_type cls targets w [] of
                  (Some e, w1, delegated_members) \<Rightarrow> (Some e, w1)
                | (None, w1, delegated_members) \<Rightarrow>
                    (case getattr_default w1 cls DELEGATE_MEMBERS_FIELD (PyFrozenSet []) of
                       PyFrozenSet inherited \<Rightarrow>
                         let w2 = setattr_cls w1 cls DELEGATE_MEMBERS_FIELD
                                    (PyFrozenSet (remdups (delegated_members @ inherited)))
                         in (case iterate delegated_types of
                               Inl e \<Rightarrow> (Some e, w2)
                             | Inr bindings \<Rightarrow>
                                 (None, setattr_cls w2 cls DELEGATE_TYPES_FIELD
                                    (PyTuple (bindings
                                       @ [PyTuple [PyStr magic_field, PyClass delegate_type]]))))
                     | _ \<Rightarrow> (Some TypeError, w1)))))"

section \<open>Auxiliary notions for the proofs\<close>

text \<open>
  \<open>frame cls w w'\<close>: the store \<open>w'\<close> differs from \<open>w\<close> at most in the \<open>__dict__\<close> of the
  class \<open>cls\<close>.  \<open>accessor\<close> is the object built at lines 95-96 for one member name.
\<close>

definition frame :: "cls_id \<Rightarrow> world \<Rightarrow> world \<Rightarrow> bool" where
  "frame cls w w' =
     (py_objects w' = py_objects w
      \<and> (\<forall>c. c \<noteq> cls \<longrightarrow> py_classes w' c = py_classes w c)
      \<and> cls_name (py_classes w' cls) = cls_name (py_classes w cls)
      \<and> cls_ancestors (py_classes w' cls) = cls_ancestors (py_classes w cls))"

definition accessor :: "world \<Rightarrow> cls_id \<Rightarrow> string \<Rightarrow> string \<Rightarrow> pyval" where
  "accessor w delegate_type magic_field name =
     PyDescr (DelegatedProperty magic_field name
       (doc_for (cls_name (py_classes w delegate_type)) name))"

text \<open>
  The two attributes in which the decorator keeps its records, and the stores in which no
  \<open>DelegatedProperty\<close> found on a class reads one of them.
\<close>

definition ledger_names :: "string set" where
  "ledger_names = {DELEGATE_MEMBERS_FIELD, DELEGATE_TYPES_FIELD}"

definition accessors_avoid_ledger :: "world \<Rightarrow> bool" where
  "accessors_avoid_ledger w =
     (\<forall>c k p. type_lookup w c k = Some (PyDescr p) \<longrightarrow>
        self_magic_field p \<notin> ledger_names \<and> self_delegated_member_name p \<notin> ledger_names)"

section \<open>A small program to run the definitions on\<close>

text \<open>
  \<^verbatim>\<open>
  class User:                      # class 0
      id: int
      name: str = "anon"
      bot = 0
      _abc_impl = 0
      def mention(self): ...
  class Presence:                  # class 2
      since: int
      status = "offline"
  class Timestamps:                # class 5
      created = 0
  class Member(User, Presence, Timestamps):    # class 1
      nick = None
  class Admin(Member):             # class 6
      pass
  class Hooks:                     # class 4
      on_update: typing.Callable = default_hook   # a module-level function
      __version__: str
      retries = 3
  \<close>
  Every other class number is an empty class with no ancestors.  Instance 0 is a
  \<open>User\<close>, instance 2 a \<open>Presence\<close>; instances 1 and 3 are \<open>Member\<close>s holding them in
  \<open>_user\<close> and \<open>_presence\<close>, and instance 3 also has a \<open>name\<close> of its own.
\<close>

definition empty_class :: pyclass where
  "empty_class = \<lparr>cls_name = [], cls_ancestors = [], cls_dict = []\<rparr>"

definition User :: pyclass where
  "User = \<lparr>cls_name = ''User'', cls_ancestors = [],
     cls_dict = [(''__module__'', PyStr ''models''),
                 (''__annotations__'', PyDict [''id'', ''name'']),
                 (''name'', PyStr ''anon''),
                 (''bot'', PyInt 0),
                 (''_abc_impl'', PyInt 0),
                 (''mention'', PyFunction ''mention'')]\<rparr>"

definition Presence :: pyclass where
  "Presence = \<lparr>cls_name = ''Presence'', cls_ancestors = [],
     cls_dict = [(''__module__'', PyStr ''models''),
                 (''__annotations__'', PyDict [''since'']),
                 (''status'', PyStr ''offline'')]\<rparr>"

definition Timestamps :: pyclass where
  "Timestamps = \<lparr>cls_name = ''Timestamps'', cls_ancestors = [],
     cls_dict = [(''__module__'', PyStr ''models''), (''created'', PyInt 0)]\<rparr>"

definition Member :: pyclass where
  "Member = \<lparr>cls_name = ''Member'', cls_ancestors = [0, 2, 5],
     cls_dict = [(''__module__'', PyStr ''models''), (''nick'', PyNone)]\<rparr>"

definition Admin :: pyclass where
  "Admin = \<lparr>cls_name = ''Admin'', cls_ancestors = [1, 0, 2, 5],
     cls_dict = [(''__module__'', PyStr ''models'')]\<rparr>"

definition Hooks :: pyclass where
  "Hooks = \<lparr>cls_name = ''Hooks'', cls_ancestors = [],
     cls_dict = [(''__module__'', PyStr ''models''),
                 (''__annotations__'', PyDict [''on_update'', ''__version__'']),
                 (''on_update'', PyFunction ''default_hook''),
                 (''retries'', PyInt 3)]\<rparr>"

definition example_objects :: "obj_id \<Rightarrow> pyobj" where
  "example_objects =
     (\<lambda>_. \<lparr>obj_class = 0, obj_dict = [(''id'', PyInt 7), (''name'', PyStr ''bob'')]\<rparr>)
       (1 := \<lparr>obj_class = 1, obj_dict = [(''_user'', PyObj 0), (''_presence'', PyObj 2)]\<rparr>,
        2 := \<lparr>obj_class = 2, obj_dict = [(''since'', PyInt 2020)]\<rparr>,
        3 := \<lparr>obj_class = 1, obj_dict = [(''_user'', PyObj 0), (''_presence'', PyObj 2),
                                         (''name'', PyStr ''shadow'')]\<rparr>)"

definition example_world :: world where
  "example_world =
     \<lparr>py_classes = (\<lambda>_. empty_class)(0 := User, 1 := Member, 2 := Presence, 4 := Hooks, 5 := Timestamps,
                                    6 := Admin),
      py_objects = example_objects\<rparr>"

text \<open>The store after \<open>Member = delegate_to(User, "_user")(Member)\<close>.\<close>

definition member_world :: world where
  "member_world = snd (delegate_to 0 ''_user'' 1 example_world)"

text \<open>
  What that store holds for \<open>Member\<close> (lemma \<open>member_world_explicit\<close> below), and the
  stores after one further application to \<open>Member\<close>: of
  \<open>delegate_to(Presence, "_presence")\<close>, or of \<open>delegate_to(User, "_user")\<close> a second time.
\<close>

definition Member_delegating :: pyclass where
  "Member_delegating = \<lparr>cls_name = ''Member'', cls_ancestors = [0, 2, 5],
     cls_dict = [(''__module__'', PyStr ''models''), (''nick'', PyNone),
                 (''bot'', PyDescr (DelegatedProperty ''_user'' ''bot'' (doc_for ''User'' ''bot''))),
                 (''id'', PyDescr (DelegatedProperty ''_user'' ''id'' (doc_for ''User'' ''id''))),
                 (''name'', PyDescr (DelegatedProperty ''_user'' ''name'' (doc_for ''User'' ''name''))),
                 (DELEGATE_MEMBERS_FIELD, PyFrozenSet [PyStr ''name'', PyStr ''id'', PyStr ''bot'']),
                 (DELEGATE_TYPES_FIELD, PyTuple [PyTuple [PyStr ''_user'', PyClass 0]])]\<rparr>"

definition layered_world :: world where
  "layered_world = snd (delegate_to 2 ''_presence'' 1 member_world)"

definition reapplied_world :: world where
  "reapplied_world = snd (delegate_to 0 ''_user'' 1 member_world)"

section \<open>Basic facts\<close>

lemma frame_refl: "frame cls w w"
  by (simp add: frame_def)

lemma frame_trans: "frame cls w w1 \<Longrightarrow> frame cls w1 w2 \<Longrightarrow> frame cls w w2"
  by (simp add: frame_def)

lemma frame_setattr_cls: "frame cls w (setattr_cls w cls name v)"
  by (simp add: frame_def setattr_cls_def)

lemma frame_cls_name: "frame cls w w' \<Longrightarrow> cls_name (py_classes w' c) = cls_name (py_classes w c)"
  by (cases "c = cls") (simp_all add: frame_def)

lemma frame_mro: "frame cls w w' \<Longrightarrow> mro w' c = mro w c"
  by (cases "c = cls") (simp_all add: frame_def mro_def)

lemma dict_setattr_cls:
  "map_of (cls_dict (py_classes (setattr_cls w cls name v) c)) =
     (if c = cls then (map_of (cls_dict (py_classes w cls)))(name \<mapsto> v)
      else map_of (cls_dict (py_classes w c)))"
  by (simp add: setattr_cls_def update_conv')

lemma lookup_mro_cong:
  "\<forall>c \<in> set cs. map_of (cls_dict (py_classes w' c)) name = map_of (cls_dict (py_classes w c)) name
   \<Longrightarrow> lookup_mro w' cs name = lookup_mro w cs name"
  by (induction cs) (auto split: option.splits)

lemma type_lookup_own:
  "map_of (cls_dict (py_classes w c)) name = Some v \<Longrightarrow> type_lookup w c name = Some v"
  by (simp add: type_lookup_def mro_def)

lemma type_lookup_frame:
  assumes "frame cls w w'"
      and "map_of (cls_dict (py_classes w' cls)) name = map_of (cls_dict (py_classes w cls)) name"
    shows "type_lookup w' c name = type_lookup w c name"
proof -
  have "\<forall>c'. map_of (cls_dict (py_classes w' c')) name = map_of (cls_dict (py_classes w c')) name"
    using assms by (metis frame_def)
  then show ?thesis
    unfolding type_lookup_def frame_mro [OF assms(1)] by (intro lookup_mro_cong) simp
qed

subsection \<open>The loop\<close>

lemma install_frame:
  "install mf D cls names w ms = (r, w', ms') \<Longrightarrow> frame cls w w'"
proof (induction names arbitrary: w ms)
  case Nil
  then show ?case by (simp add: frame_refl)
next
  case (Cons x xs)
  show ?case
  proof (cases x)
    case (PyStr n)
    with Cons.prems have "frame cls (setattr_cls w cls n
        (PyDescr (DelegatedProperty mf n (doc_for (cls_name (py_classes w D)) n)))) w'"
      by (auto intro: Cons.IH)
    then show ?thesis
      using frame_setattr_cls frame_trans by blast
  qed (use Cons.prems in \<open>auto simp: frame_refl\<close>)
qed

lemma install_None:
  "install mf D cls names w ms = (None, w', ms') \<Longrightarrow>
     (\<forall>x \<in> set names. \<exists>n. x = PyStr n)
     \<and> set ms' = set ms \<union> set names
     \<and> map_of (cls_dict (py_classes w' cls)) =
         (\<lambda>k. if PyStr k \<in> set names then Some (accessor w D mf k)
              else map_of (cls_dict (py_classes w cls)) k)"
proof (induction names arbitrary: w ms)
  case Nil
  then show ?case by simp
next
  case (Cons x xs)
  from Cons.prems obtain n where x: "x = PyStr n"
    by (cases x) auto
  let ?w1 = "setattr_cls w cls n (accessor w D mf n)"
  from Cons.prems x have run: "install mf D cls xs ?w1 (List.insert x ms) = (None, w', ms')"
    by (simp add: accessor_def)
  have nm: "cls_name (py_classes ?w1 D) = cls_name (py_classes w D)"
    using frame_cls_name [OF frame_setattr_cls] .
  from Cons.IH [OF run] have ih:
    "\<forall>x \<in> set xs. \<exists>n. x = PyStr n"
    "set ms' = set (List.insert x ms) \<union> set xs"
    "map_of (cls_dict (py_classes w' cls)) =
       (\<lambda>k. if PyStr k \<in> set xs then Some (accessor ?w1 D mf k)
            else map_of (cls_dict (py_classes ?w1 cls)) k)"
    by auto
  have acc: "accessor ?w1 D mf = accessor w D mf"
    using nm by (simp add: accessor_def fun_eq_iff)
  show ?case
    using ih(1,2) ih(3) [unfolded acc] x by (auto simp: dict_setattr_cls fun_eq_iff)
qed

lemma install_succeeds:
  "\<forall>x \<in> set names. \<exists>n. x = PyStr n \<Longrightarrow> \<exists>w' ms'. install mf D cls names w ms = (None, w', ms')"
proof (induction names arbitrary: w ms)
  case Nil
  then show ?case by simp
next
  case (Cons x xs)
  then obtain n where "x = PyStr n" by auto
  with Cons show ?case by simp
qed

subsection \<open>What a normal return of the decorator means\<close>

lemma delegate_to_returns:
  assumes "delegate_to D f H w = (None, w')"
  obtains targets inherited bindings members where
    "issubclass w H D"
    "classify w D = Inr targets"
    "\<forall>x \<in> set targets. \<exists>n. x = PyStr n"
    "PyStr DELEGATE_MEMBERS_FIELD \<notin> set targets"
    "getattr_default w H DELEGATE_MEMBERS_FIELD (PyFrozenSet []) = PyFrozenSet inherited"
    "iterate (getattr_default w H DELEGATE_TYPES_FIELD EMPTY_SEQUENCE) = Inr bindings"
    "set members = set targets \<union> set inherited"
    "frame H w w'"
    "map_of (cls_dict (py_classes w' H)) =
       (\<lambda>k. if k = DELEGATE_TYPES_FIELD
               then Some (PyTuple (bindings @ [PyTuple [PyStr f, PyClass D]]))
            else if k = DELEGATE_MEMBERS_FIELD then Some (PyFrozenSet members)
            else if PyStr k \<in> set targets then Some (accessor w D f k)
            else map_of (cls_dict (py_classes w H)) k)"
proof -
  from assms have sub: "issubclass w H D"
    by (auto simp: delegate_to_def assert_subclasses_def split: if_splits)
  from assms sub obtain targets where cl: "classify w D = Inr targets"
    by (cases "classify w D") (auto simp: delegate_to_def assert_subclasses_def)
  obtain r w1 ms where ins: "install f D H targets w [] = (r, w1, ms)"
    by (metis prod_cases3)
  from assms sub cl ins have r: "r = None"
    by (cases r) (auto simp: delegate_to_def assert_subclasses_def)
  note ins = ins [unfolded r]
  note fr1 = install_frame [OF ins]
  from install_None [OF ins] have strs: "\<forall>x \<in> set targets. \<exists>n. x = PyStr n"
    and ms: "set ms = set targets"
    and d1: "map_of (cls_dict (py_classes w1 H)) =
         (\<lambda>k. if PyStr k \<in> set targets then Some (accessor w D f k)
              else map_of (cls_dict (py_classes w H)) k)"
    by auto
  from assms sub cl ins obtain inherited where
    inh1: "getattr_default w1 H DELEGATE_MEMBERS_FIELD (PyFrozenSet []) = PyFrozenSet inherited"
    by (cases "getattr_default w1 H DELEGATE_MEMBERS_FIELD (PyFrozenSet [])")
       (auto simp: delegate_to_def assert_subclasses_def)
  have notin: "PyStr DELEGATE_MEMBERS_FIELD \<notin> set targets"
  proof
    assume "PyStr DELEGATE_MEMBERS_FIELD \<in> set targets"
    then have "type_lookup w1 H DELEGATE_MEMBERS_FIELD = Some (accessor w D f DELEGATE_MEMBERS_FIELD)"
      by (intro type_lookup_own) (simp add: d1)
    with inh1 show False
      by (simp add: getattr_default_def accessor_def)
  qed
  have "type_lookup w1 H DELEGATE_MEMBERS_FIELD = type_lookup w H DELEGATE_MEMBERS_FIELD"
    by (rule type_lookup_frame [OF fr1]) (simp add: d1 notin)
  with inh1 have inh: "getattr_default w H DELEGATE_MEMBERS_FIELD (PyFrozenSet []) = PyFrozenSet inherited"
    by (simp add: getattr_default_def)
  let ?w2 = "setattr_cls w1 H DELEGATE_MEMBERS_FIELD (PyFrozenSet (remdups (ms @ inherited)))"
  from assms sub cl ins inh1 obtain bindings where
    it: "iterate (getattr_default w H DELEGATE_TYPES_FIELD EMPTY_SEQUENCE) = Inr bindings"
    by (cases "iterate (getattr_default w H DELEGATE_TYPES_FIELD EMPTY_SEQUENCE)")
       (auto simp: delegate_to_def assert_subclasses_def Let_def)
  from assms sub cl ins inh1 it have w': "w' = setattr_cls ?w2 H DELEGATE_TYPES_FIELD
      (PyTuple (bindings @ [PyTuple [PyStr f, PyClass D]]))"
    by (simp add: delegate_to_def assert_subclasses_def Let_def)
  have fr: "frame H w w'"
    unfolding w' using fr1 frame_setattr_cls frame_trans by blast
  have d: "map_of (cls_dict (py_classes w' H)) =
       (\<lambda>k. if k = DELEGATE_TYPES_FIELD
               then Some (PyTuple (bindings @ [PyTuple [PyStr f, PyClass D]]))
            else if k = DELEGATE_MEMBERS_FIELD then Some (PyFrozenSet (remdups (ms @ inherited)))
            else if PyStr k \<in> set targets then Some (accessor w D f k)
            else map_of (cls_dict (py_classes w H)) k)"
    unfolding w' by (auto simp: dict_setattr_cls d1 fun_eq_iff)
  show ?thesis
    by (rule that [OF sub cl strs notin inh it _ fr d]) (simp add: ms)
qed

text \<open>Conversely, these conditions are enough for a normal return.\<close>

lemma delegate_to_succeeds:
  assumes sub: "issubclass w H D"
      and cl: "classify w D = Inr targets"
      and strs: "\<forall>x \<in> set targets. \<exists>n. x = PyStr n"
      and notin: "PyStr DELEGATE_MEMBERS_FIELD \<notin> set targets"
      and inh: "getattr_default w H DELEGATE_MEMBERS_FIELD (PyFrozenSet []) = PyFrozenSet inherited"
      and it: "iterate (getattr_default w H DELEGATE_TYPES_FIELD EMPTY_SEQUENCE) = Inr bindings"
  shows "fst (delegate_to D f H w) = None"
proof -
  from install_succeeds [OF strs] obtain w1 ms where
    ins: "install f D H targets w [] = (None, w1, ms)"
    by blast
  note fr1 = install_frame [OF ins]
  from install_None [OF ins] have d1: "map_of (cls_dict (py_classes w1 H)) =
         (\<lambda>k. if PyStr k \<in> set targets then Some (accessor w D f k)
              else map_of (cls_dict (py_classes w H)) k)"
    by simp
  have "type_lookup w1 H DELEGATE_MEMBERS_FIELD = type_lookup w H DELEGATE_MEMBERS_FIELD"
    by (rule type_lookup_frame [OF fr1]) (simp add: d1 notin)
  with inh have "getattr_default w1 H DELEGATE_MEMBERS_FIELD (PyFrozenSet []) = PyFrozenSet inherited"
    by (simp add: getattr_default_def)
  with sub cl ins it show ?thesis
    by (simp add: delegate_to_def assert_subclasses_def Let_def)
qed

text \<open>Whatever the outcome, the call touches nothing but the \<open>__dict__\<close> of \<open>cls\<close>.\<close>

lemma delegate_to_frame: "frame H w (snd (delegate_to D f H w))"
proof -
  have loop: "frame H w w1" if "install f D H ts w [] = (r, w1, ms)" for ts r w1 ms
    using that by (rule install_frame)
  have two: "frame H w (setattr_cls w1 H k v)" if "frame H w w1" for w1 k v
    using that frame_setattr_cls frame_trans by blast
  show ?thesis
    unfolding delegate_to_def Let_def
    by (auto simp: frame_refl split: option.splits sum.splits prod.splits pyval.splits
          intro!: two dest: loop)
qed

lemma lookup_mro_changed:
  assumes "\<forall>c. c \<noteq> H \<longrightarrow> py_classes w1 c = py_classes w c"
      and "map_of (cls_dict (py_classes w1 H)) k = Some a"
    shows "lookup_mro w1 cs k = lookup_mro w cs k \<or> lookup_mro w1 cs k = Some a"
proof (induction cs)
  case Nil
  then show ?case by simp
next
  case (Cons c cs)
  show ?case
  proof (cases "c = H")
    case True
    with assms(2) show ?thesis by simp
  next
    case False
    with assms(1) have "py_classes w1 c = py_classes w c" by simp
    with Cons show ?thesis by (auto split: option.splits)
  qed
qed

lemma read_through_accessor:
  assumes "type_lookup w (obj_class (py_objects w h)) m = Some (PyDescr p)"
      and "map_of (obj_dict (py_objects w h)) m = None"
    shows "py_getattr (Suc n) w (PyObj h) m =
             (case py_getattr n w (PyObj h) (self_magic_field p) of
                Inl e \<Rightarrow> Inl e
              | Inr d \<Rightarrow> py_getattr n w d (self_delegated_member_name p))"
  using assms by (simp add: DelegatedProperty_get_def)

lemma accessor_same_name:
  "frame H w w1 \<Longrightarrow> accessor w1 D f k = accessor w D f k"
  by (simp add: accessor_def frame_cls_name)

lemma ledger_distinct: "DELEGATE_TYPES_FIELD \<noteq> DELEGATE_MEMBERS_FIELD"
  by (simp add: DELEGATE_TYPES_FIELD_def DELEGATE_MEMBERS_FIELD_def)

subsection \<open>Classification\<close>

lemma set_dict_fields:
  "set (dict_fields d) =
     {k. \<exists>v. map_of d k = Some v \<and> \<not> should_ignore_attribute_for_field k v}"
  by (auto simp: dict_fields_def split: option.splits dest: map_of_SomeD intro: rev_image_eqI)

lemma classify_Inr:
  assumes "classify w D = Inr t"
  obtains ann where "set_display (getattr_default w D ''__annotations__'' EMPTY_SEQUENCE) = Inr ann"
    and "set t = PyStr ` set (dict_fields (cls_dict (py_classes w D))) \<union> set ann"
  using assms by (auto simp: classify_def split: sum.splits)

lemma ledger_names_ignored:
  "k \<in> ledger_names \<Longrightarrow> should_ignore_attribute_for_field k v"
  by (auto simp: ledger_names_def should_ignore_attribute_for_field_def startswith_def
        DELEGATE_TYPES_FIELD_def DELEGATE_MEMBERS_FIELD_def)

lemma annotations_not_ledger: "''__annotations__'' \<notin> ledger_names"
  by (simp add: ledger_names_def DELEGATE_TYPES_FIELD_def DELEGATE_MEMBERS_FIELD_def)

subsection \<open>Reads in two stores that differ in the ledger attributes only\<close>

lemma py_getattr_agree:
  assumes obj: "py_objects w2 = py_objects w1"
      and tl: "\<forall>c k. k \<notin> ledger_names \<longrightarrow> type_lookup w2 c k = type_lookup w1 c k"
      and av: "accessors_avoid_ledger w1"
  shows "name \<notin> ledger_names \<Longrightarrow> py_getattr n w2 x name = py_getattr n w1 x name"
proof (induction n arbitrary: x name)
  case 0
  with obj tl show ?case
    by (cases x) (simp_all split: option.splits pyval.splits)
next
  case (Suc n)
  have ih: "DelegatedProperty_get (py_getattr n w2) p i = DelegatedProperty_get (py_getattr n w1) p i"
    if "type_lookup w1 c name = Some (PyDescr p)" for p i c
  proof -
    from av that have "self_magic_field p \<notin> ledger_names" "self_delegated_member_name p \<notin> ledger_names"
      by (auto simp: accessors_avoid_ledger_def)
    then show ?thesis
      by (simp add: DelegatedProperty_get_def Suc.IH cong: sum.case_cong)
  qed
  from Suc.prems tl have same: "type_lookup w2 c name = type_lookup w1 c name" for c
    by simp
  show ?case
  proof (cases x)
    case (PyObj h)
    show ?thesis
    proof (cases "type_lookup w1 (obj_class (py_objects w1 h)) name")
      case None
      with PyObj obj same show ?thesis
        by (simp cong: option.case_cong)
    next
      case (Some a)
      show ?thesis
      proof (cases a)
        case (PyDescr p)
        with Some have "type_lookup w1 (obj_class (py_objects w1 h)) name = Some (PyDescr p)"
          by simp
        with PyObj obj same ih [OF this] show ?thesis
          by (simp cong: option.case_cong)
      qed (use Some PyObj obj same in \<open>simp_all cong: option.case_cong\<close>)
    qed
  next
    case (PyClass c)
    show ?thesis
    proof (cases "type_lookup w1 c name")
      case None
      with PyClass same show ?thesis by simp
    next
      case (Some a)
      show ?thesis
      proof (cases a)
        case (PyDescr p)
        with Some have "type_lookup w1 c name = Some (PyDescr p)"
          by simp
        with PyClass same ih [OF this] show ?thesis
          by simp
      qed (use Some PyClass same in simp_all)
    qed
  qed simp_all
qed

lemma avoid_preserved:
  assumes run: "delegate_to D f H w = (None, w1)"
      and av: "accessors_avoid_ledger w" and f: "f \<notin> ledger_names"
  shows "accessors_avoid_ledger w1"
  unfolding accessors_avoid_ledger_def
proof (intro allI impI)
  fix c k p
  assume look: "type_lookup w1 c k = Some (PyDescr p)"
  from run obtain t1 bs1 ms1 where
    n1: "PyStr DELEGATE_MEMBERS_FIELD \<notin> set t1" and
    fr1: "frame H w w1" and
    d1: "map_of (cls_dict (py_classes w1 H)) =
       (\<lambda>k. if k = DELEGATE_TYPES_FIELD
               then Some (PyTuple (bs1 @ [PyTuple [PyStr f, PyClass D]]))
            else if k = DELEGATE_MEMBERS_FIELD then Some (PyFrozenSet ms1)
            else if PyStr k \<in> set t1 then Some (accessor w D f k)
            else map_of (cls_dict (py_classes w H)) k)"
    by (rule delegate_to_returns)
  have others: "\<forall>c. c \<noteq> H \<longrightarrow> py_classes w1 c = py_classes w c"
    using fr1 by (simp add: frame_def)
  have old: "self_magic_field p \<notin> ledger_names \<and> self_delegated_member_name p \<notin> ledger_names"
    if "type_lookup w c' k = Some (PyDescr p)" for c'
    using av that by (auto simp: accessors_avoid_ledger_def)
  show "self_magic_field p \<notin> ledger_names \<and> self_delegated_member_name p \<notin> ledger_names"
  proof (cases "map_of (cls_dict (py_classes w1 H)) k")
    case None
    then have "map_of (cls_dict (py_classes w1 H)) k = map_of (cls_dict (py_classes w H)) k"
      by (simp add: d1 split: if_splits)
    from type_lookup_frame [OF fr1 this, of c] look
    have "type_lookup w c k = Some (PyDescr p)" by simp
    then show ?thesis by (rule old)
  next
    case (Some a)
    from lookup_mro_changed [OF others Some, of "mro w c"]
    have "type_lookup w1 c k = type_lookup w c k \<or> type_lookup w1 c k = Some a"
      by (simp add: type_lookup_def frame_mro [OF fr1])
    then show ?thesis
    proof
      assume "type_lookup w1 c k = type_lookup w c k"
      with look have "type_lookup w c k = Some (PyDescr p)" by simp
      then show ?thesis by (rule old)
    next
      assume "type_lookup w1 c k = Some a"
      with look have a: "a = PyDescr p" by simp
      show ?thesis
      proof (cases "k \<in> ledger_names")
        case True
        with Some a show ?thesis
          by (auto simp: d1 ledger_names_def split: if_splits)
      next
        case False
        show ?thesis
        proof (cases "PyStr k \<in> set t1")
          case True
          with False Some a f show ?thesis
            by (auto simp: d1 ledger_names_def accessor_def split: if_splits)
        next
          case nt: False
          with False Some a have "map_of (cls_dict (py_classes w H)) k = Some (PyDescr p)"
            by (auto simp: d1 ledger_names_def split: if_splits)
          then have "type_lookup w H k = Some (PyDescr p)"
            by (rule type_lookup_own)
          then show ?thesis by (rule old)
        qed
      qed
    qed
  qed
qed

subsection \<open>Forwarding through the installed accessors\<close>

text \<open>
  Where the attribute found for \<open>m\<close> on the class of an instance is the one found on the
  decorated host, and the instance has no entry \<open>m\<close> in its own \<open>__dict__\<close>, the read goes
  to the object in the magic field.
\<close>

lemma delegated_read:
  assumes "delegate_to D f H w = (None, w')"
      and "classify w D = Inr targets" and "PyStr m \<in> set targets"
      and "m \<noteq> DELEGATE_TYPES_FIELD"
      and "type_lookup w' (obj_class (py_objects w' h)) m = type_lookup w' H m"
      and "map_of (obj_dict (py_objects w' h)) m = None"
      and "py_getattr n w' (PyObj h) f = Inr d"
  shows "py_getattr (Suc n) w' (PyObj h) m = py_getattr n w' d m"
proof -
  from assms(1) have "map_of (cls_dict (py_classes w' H)) m = Some (accessor w D f m)"
  proof (rule delegate_to_returns)
    fix targets' inherited bindings members
    assume "classify w D = Inr targets'"
       and "PyStr DELEGATE_MEMBERS_FIELD \<notin> set targets'"
       and d: "map_of (cls_dict (py_classes w' H)) =
       (\<lambda>k. if k = DELEGATE_TYPES_FIELD
               then Some (PyTuple (bindings @ [PyTuple [PyStr f, PyClass D]]))
            else if k = DELEGATE_MEMBERS_FIELD then Some (PyFrozenSet members)
            else if PyStr k \<in> set targets' then Some (accessor w D f k)
            else map_of (cls_dict (py_classes w H)) k)"
    with assms(2,3,4) show ?thesis by auto
  qed
  then have "type_lookup w' H m = Some (PyDescr (DelegatedProperty f m (doc_for (cls_name (py_classes w D)) m)))"
    by (simp add: type_lookup_own accessor_def)
  with assms(5,6,7) show ?thesis
    by (simp add: DelegatedProperty_get_def)
qed

text \<open>
  Two layers with disjoint classifications: the forwarded names are those visible before
  together with both classifications, each name keeps the accessor of its own layer, and the
  reads go through the field of that layer.
\<close>

lemma layered_delegation:
  assumes "delegate_to D1 f1 H w = (None, w1)" and "delegate_to D2 f2 H w1 = (None, w2)"
      and "classify w D1 = Inr e1" and "classify w1 D2 = Inr e2"
      and "set e1 \<inter> set e2 = {}"
  shows "(\<exists>before members.
            getattr_default w H DELEGATE_MEMBERS_FIELD (PyFrozenSet []) = PyFrozenSet before
          \<and> getattr_default w2 H DELEGATE_MEMBERS_FIELD (PyFrozenSet []) = PyFrozenSet members
          \<and> set members = set before \<union> set e1 \<union> set e2
          \<and> (type_lookup w H DELEGATE_MEMBERS_FIELD = None \<longrightarrow> set members = set e1 \<union> set e2))
       \<and> (\<forall>m. PyStr m \<in> set e1 \<and> m \<noteq> DELEGATE_TYPES_FIELD \<longrightarrow>
              type_lookup w2 H m = Some (accessor w D1 f1 m))
       \<and> (\<forall>m. PyStr m \<in> set e2 \<and> m \<noteq> DELEGATE_TYPES_FIELD \<longrightarrow>
              type_lookup w2 H m = Some (accessor w D2 f2 m))
       \<and> (\<forall>m h n. (PyStr m \<in> set e1 \<or> PyStr m \<in> set e2) \<and> m \<noteq> DELEGATE_TYPES_FIELD
              \<and> type_lookup w2 (obj_class (py_objects w2 h)) m = type_lookup w2 H m
              \<and> map_of (obj_dict (py_objects w2 h)) m = None \<longrightarrow>
              py_getattr (Suc n) w2 (PyObj h) m =
                (case py_getattr n w2 (PyObj h) (if PyStr m \<in> set e1 then f1 else f2) of
                   Inl e \<Rightarrow> Inl e
                 | Inr d \<Rightarrow> py_getattr n w2 d m))"
proof -
  from assms(1) obtain t1 inh1 bs1 ms1 where
    c1: "classify w D1 = Inr t1" and
    n1: "PyStr DELEGATE_MEMBERS_FIELD \<notin> set t1" and
    i1: "getattr_default w H DELEGATE_MEMBERS_FIELD (PyFrozenSet []) = PyFrozenSet inh1" and
    s1: "set ms1 = set t1 \<union> set inh1" and
    fr1: "frame H w w1" and
    d1: "map_of (cls_dict (py_classes w1 H)) =
       (\<lambda>k. if k = DELEGATE_TYPES_FIELD
               then Some (PyTuple (bs1 @ [PyTuple [PyStr f1, PyClass D1]]))
            else if k = DELEGATE_MEMBERS_FIELD then Some (PyFrozenSet ms1)
            else if PyStr k \<in> set t1 then Some (accessor w D1 f1 k)
            else map_of (cls_dict (py_classes w H)) k)"
    by (rule delegate_to_returns)
  from assms(2) obtain t2 inh2 bs2 ms2 where
    c2: "classify w1 D2 = Inr t2" and
    n2: "PyStr DELEGATE_MEMBERS_FIELD \<notin> set t2" and
    i2: "getattr_default w1 H DELEGATE_MEMBERS_FIELD (PyFrozenSet []) = PyFrozenSet inh2" and
    s2: "set ms2 = set t2 \<union> set inh2" and
    fr2: "frame H w1 w2" and
    d2: "map_of (cls_dict (py_classes w2 H)) =
       (\<lambda>k. if k = DELEGATE_TYPES_FIELD
               then Some (PyTuple (bs2 @ [PyTuple [PyStr f2, PyClass D2]]))
            else if k = DELEGATE_MEMBERS_FIELD then Some (PyFrozenSet ms2)
            else if PyStr k \<in> set t2 then Some (accessor w1 D2 f2 k)
            else map_of (cls_dict (py_classes w1 H)) k)"
    by (rule delegate_to_returns)
  from c1 c2 assms(3,4) have t: "t1 = e1" "t2 = e2" by simp_all
  have own1: "getattr_default w1 H DELEGATE_MEMBERS_FIELD (PyFrozenSet []) = PyFrozenSet ms1"
    by (simp add: getattr_default_def type_lookup_own d1 ledger_distinct [symmetric])
  with i2 have inh2: "inh2 = ms1" by simp
  have own2: "getattr_default w2 H DELEGATE_MEMBERS_FIELD (PyFrozenSet []) = PyFrozenSet ms2"
    by (simp add: getattr_default_def type_lookup_own d2 ledger_distinct [symmetric])
  have sets: "set ms2 = set inh1 \<union> set e1 \<union> set e2"
    using s1 s2 inh2 t by auto
  have fresh: "set ms2 = set e1 \<union> set e2" if "type_lookup w H DELEGATE_MEMBERS_FIELD = None"
    using that i1 sets by (simp add: getattr_default_def)
  have a1: "type_lookup w2 H m = Some (accessor w D1 f1 m)"
    if "PyStr m \<in> set e1" "m \<noteq> DELEGATE_TYPES_FIELD" for m
  proof -
    from that n1 t have "m \<noteq> DELEGATE_MEMBERS_FIELD" by auto
    moreover from that assms(5) have "PyStr m \<notin> set e2" by auto
    ultimately show ?thesis
      using that t by (intro type_lookup_own) (simp add: d2 d1)
  qed
  have a2: "type_lookup w2 H m = Some (accessor w D2 f2 m)"
    if "PyStr m \<in> set e2" "m \<noteq> DELEGATE_TYPES_FIELD" for m
  proof -
    from that n2 t have "m \<noteq> DELEGATE_MEMBERS_FIELD" by auto
    then show ?thesis
      using that t by (intro type_lookup_own) (simp add: d2 accessor_same_name [OF fr1])
  qed
  have r: "py_getattr (Suc n) w2 (PyObj h) m =
                (case py_getattr n w2 (PyObj h) (if PyStr m \<in> set e1 then f1 else f2) of
                   Inl e \<Rightarrow> Inl e
                 | Inr d \<Rightarrow> py_getattr n w2 d m)"
    if "PyStr m \<in> set e1 \<or> PyStr m \<in> set e2" "m \<noteq> DELEGATE_TYPES_FIELD"
       "type_lookup w2 (obj_class (py_objects w2 h)) m = type_lookup w2 H m"
       "map_of (obj_dict (py_objects w2 h)) m = None" for m h n
  proof (cases "PyStr m \<in> set e1")
    case True
    from a1 [OF True that(2)] that(3)
    have "type_lookup w2 (obj_class (py_objects w2 h)) m
        = Some (PyDescr (DelegatedProperty f1 m (doc_for (cls_name (py_classes w D1)) m)))"
      by (simp add: accessor_def)
    from read_through_accessor [OF this that(4), of n] True show ?thesis
      by (simp del: py_getattr.simps cong: sum.case_cong)
  next
    case False
    with that(1) have "PyStr m \<in> set e2" by simp
    from a2 [OF this that(2)] that(3)
    have "type_lookup w2 (obj_class (py_objects w2 h)) m
        = Some (PyDescr (DelegatedProperty f2 m (doc_for (cls_name (py_classes w D2)) m)))"
      by (simp add: accessor_def)
    from read_through_accessor [OF this that(4), of n] False show ?thesis
      by (simp del: py_getattr.simps cong: sum.case_cong)
  qed
  have m: "\<exists>before members.
            getattr_default w H DELEGATE_MEMBERS_FIELD (PyFrozenSet []) = PyFrozenSet before
          \<and> getattr_default w2 H DELEGATE_MEMBERS_FIELD (PyFrozenSet []) = PyFrozenSet members
          \<and> set members = set before \<union> set e1 \<union> set e2
          \<and> (type_lookup w H DELEGATE_MEMBERS_FIELD = None \<longrightarrow> set members = set e1 \<union> set e2)"
    using i1 own2 sets fresh by (intro exI [of _ inh1] exI [of _ ms2]) simp
  show ?thesis
  proof (intro conjI allI impI)
    show "\<exists>before members.
            getattr_default w H DELEGATE_MEMBERS_FIELD (PyFrozenSet []) = PyFrozenSet before
          \<and> getattr_default w2 H DELEGATE_MEMBERS_FIELD (PyFrozenSet []) = PyFrozenSet members
          \<and> set members = set before \<union> set e1 \<union> set e2
          \<and> (type_lookup w H DELEGATE_MEMBERS_FIELD = None \<longrightarrow> set members = set e1 \<union> set e2)"
      by (rule m)
  qed (use a1 a2 r in blast)+
qed

subsection \<open>Facts about the example program\<close>

lemma member_world_run: "delegate_to 0 ''_user'' 1 example_world = (None, member_world)"
proof -
  have "fst (delegate_to 0 ''_user'' 1 example_world) = None" by code_simp
  then show ?thesis by (simp add: member_world_def prod_eq_iff)
qed

lemma member_world_class: "py_classes member_world 1 = Member_delegating"
  by code_simp

lemma member_world_explicit:
  "member_world = example_world\<lparr>py_classes := (py_classes example_world)(1 := Member_delegating)\<rparr>"
proof -
  have "frame 1 example_world member_world"
    unfolding member_world_def by (rule delegate_to_frame)
  then show ?thesis
    using member_world_class
    by (intro world.equality) (auto simp: frame_def fun_eq_iff)
qed

declare member_world_explicit [code]

lemma layered_world_run: "delegate_to 2 ''_presence'' 1 member_world = (None, layered_world)"
proof -
  have "fst (delegate_to 2 ''_presence'' 1 member_world) = None"by code_simp
  then show ?thesis by (simp add: layered_world_def prod_eq_iff)
qed

lemma reapplied_world_run: "delegate_to 0 ''_user'' 1 member_world = (None, reapplied_world)"
proof -
  have "fst (delegate_to 0 ''_user'' 1 member_world) = None"by code_simp
  then show ?thesis by (simp add: reapplied_world_def prod_eq_iff)
qed

lemma example_world_no_accessor: "type_lookup example_world c k \<noteq> Some (PyDescr p)"
proof -
  have cls: "c \<in> {0, 1, 2, 4, 5, 6} \<or> py_classes example_world c = empty_class"
    by (auto simp: example_world_def)
  have d: "map_of (cls_dict (py_classes example_world c')) k \<noteq> Some (PyDescr p)" for c'
    by (auto simp: example_world_def User_def Member_def Presence_def Timestamps_def Hooks_def
          Admin_def empty_class_def split: if_splits)
  have "lookup_mro example_world cs k \<noteq> Some (PyDescr p)" for cs
    by (induction cs) (use d in \<open>auto split: option.splits\<close>)
  then show ?thesis by (simp add: type_lookup_def)
qed

lemma example_world_avoids: "accessors_avoid_ledger example_world"
  by (simp add: accessors_avoid_ledger_def example_world_no_accessor)

lemma member_world_avoids: "accessors_avoid_ledger member_world"
  by (rule avoid_preserved [OF member_world_run example_world_avoids])
     (simp add: ledger_names_def DELEGATE_TYPES_FIELD_def DELEGATE_MEMBERS_FIELD_def)

section \<open>The claims\<close>

text \<open>
  C1.  After the decorator has returned normally, a read of a forwarded name on an instance
  of the host is meant to give what the same read on the object in the magic field gives.
  The code does not do so on every instance: \<open>DelegatedProperty\<close> defines no \<open>__set__\<close>,
  which makes it a non-data descriptor, and an entry of the instance's own \<open>__dict__\<close>
  takes precedence over it.  Instance 3 is a \<open>Member\<close> whose \<open>_user\<close> holds instance 0;
  reading \<open>name\<close> on it gives its own \<open>"shadow"\<close>, while reading \<open>name\<close> on the delegate
  gives \<open>"bob"\<close>.  (This is the defect of C2 seen from the reading side.)
\<close>

theorem own_entry_shadows_accessor:
  "delegate_to 0 ''_user'' 1 example_world = (None, member_world)
   \<and> issubclass example_world 1 0
   \<and> classify example_world 0 = Inr [PyStr ''bot'', PyStr ''id'', PyStr ''name'']
   \<and> obj_class (py_objects member_world 3) = 1
   \<and> py_getattr 5 member_world (PyObj 3) ''_user'' = Inr (PyObj 0)
   \<and> py_getattr 5 member_world (PyObj 3) ''name'' = Inr (PyStr ''shadow'')
   \<and> py_getattr 5 member_world (PyObj 0) ''name'' = Inr (PyStr ''bob'')"
proof -
  have h1: "delegate_to 0 ''_user'' 1 example_world = (None, member_world)"
    by (rule member_world_run)
  have h2: "issubclass example_world 1 0" by code_simp
  have h3: "classify example_world 0 = Inr [PyStr ''bot'', PyStr ''id'', PyStr ''name'']"
    by code_simp
  have h4: "obj_class (py_objects member_world 3) = 1"by code_simp
  have h5: "py_getattr 5 member_world (PyObj 3) ''_user'' = Inr (PyObj 0)"by code_simp
  have h6: "py_getattr 5 member_world (PyObj 3) ''name'' = Inr (PyStr ''shadow'')"by code_simp
  have h7: "py_getattr 5 member_world (PyObj 0) ''name'' = Inr (PyStr ''bob'')"by code_simp
  show ?thesis by (intro conjI h1 h2 h3 h4 h5 h6 h7)
qed

text \<open>
  C2.  The class docstring calls the property read-only, but assigning through a forwarded
  name raises nothing: on instance 1 of the decorated \<open>Member\<close>, \<open>h.name = "eve"\<close>
  completes, the value lands in the instance's own \<open>__dict__\<close>, and from then on \<open>h.name\<close>
  reads \<open>"eve"\<close> instead of the delegate's \<open>"bob"\<close> (the delegate itself is not changed).
\<close>

theorem assignment_through_accessor_succeeds:
  "delegate_to 0 ''_user'' 1 example_world = (None, member_world)
   \<and> py_getattr 5 member_world (PyObj 1) ''name'' = Inr (PyStr ''bob'')
   \<and> fst (py_setattr member_world 1 ''name'' (PyStr ''eve'')) = None
   \<and> py_getattr 5 (snd (py_setattr member_world 1 ''name'' (PyStr ''eve''))) (PyObj 1) ''name''
       = Inr (PyStr ''eve'')
   \<and> py_getattr 5 (snd (py_setattr member_world 1 ''name'' (PyStr ''eve''))) (PyObj 0) ''name''
       = Inr (PyStr ''bob'')"
proof -
  have h1: "delegate_to 0 ''_user'' 1 example_world = (None, member_world)"
    by (rule member_world_run)
  have h2: "py_getattr 5 member_world (PyObj 1) ''name'' = Inr (PyStr ''bob'')"by code_simp
  have h3: "fst (py_setattr member_world 1 ''name'' (PyStr ''eve'')) = None"
    by (simp add: py_setattr_def)
  have h4: "py_getattr 5 (snd (py_setattr member_world 1 ''name'' (PyStr ''eve''))) (PyObj 1) ''name''
       = Inr (PyStr ''eve'')"by code_simp
  have h5: "py_getattr 5 (snd (py_setattr member_world 1 ''name'' (PyStr ''eve''))) (PyObj 0) ''name''
       = Inr (PyStr ''bob'')"by code_simp
  show ?thesis by (intro conjI h1 h2 h3 h4 h5)
qed

text \<open>
  C3.  When the host class is not a subclass of the delegate type, the decorator raises
  \<open>ConfigurationError\<close> and leaves the whole store as it was: the host's recorded bindings
  and forwarded names are untouched, no accessor is installed.  (The error raised is that of
  \<open>assert_subclasses\<close> as the spec describes it.)
\<close>

theorem delegate_to_rejects_non_subclass:
  "\<not> issubclass w H D \<Longrightarrow> delegate_to D f H w = (Some ConfigurationError, w)"
  by (simp add: delegate_to_def assert_subclasses_def)

theorem delegate_to_rejects_non_subclass_witness:
  "\<not> issubclass example_world 1 3
   \<and> delegate_to 3 ''_other'' 1 example_world = (Some ConfigurationError, example_world)"
proof -
  have h: "\<not> issubclass example_world 1 3"
    by (simp add: issubclass_def mro_def example_world_def Member_def)
  from delegate_to_rejects_non_subclass [OF h]
  have c: "delegate_to 3 ''_other'' 1 example_world = (Some ConfigurationError, example_world)" .
  show ?thesis by (intro conjI h c)
qed

text \<open>
  C4.  The filter \<open>_should_ignore_attribute_for_field\<close> is applied to the entries of
  \<open>__dict__\<close> only (line 91); the names of \<open>__annotations__\<close> are added unfiltered (line
  92).  In \<open>Hooks\<close> the member \<open>on_update\<close> is a function, which the filter rejects, and
  \<open>__version__\<close> starts with a double underscore; both are annotated, and both are in the
  classification.
\<close>

theorem annotated_members_escape_the_filter:
  "classify example_world 4 = Inr [PyStr ''retries'', PyStr ''on_update'', PyStr ''__version__'']
   \<and> map_of (cls_dict (py_classes example_world 4)) ''on_update'' = Some (PyFunction ''default_hook'')
   \<and> isfunction (PyFunction ''default_hook'')
   \<and> should_ignore_attribute_for_field ''on_update'' (PyFunction ''default_hook'')
   \<and> startswith ''__version__'' ''__''"
proof -
  have h1: "classify example_world 4 = Inr [PyStr ''retries'', PyStr ''on_update'', PyStr ''__version__'']"
    by code_simp
  have h2: "map_of (cls_dict (py_classes example_world 4)) ''on_update'' = Some (PyFunction ''default_hook'')"
    by code_simp
  have h3: "isfunction (PyFunction ''default_hook'')" by code_simp
  have h4: "should_ignore_attribute_for_field ''on_update'' (PyFunction ''default_hook'')" by code_simp
  have h5: "startswith ''__version__'' ''__''" by code_simp
  show ?thesis by (intro conjI h1 h2 h3 h4 h5)
qed

text \<open>
  C5.  \<open>Member\<close>, with no forwarded names before, is decorated for \<open>User\<close> with field
  \<open>_user\<close> and then for \<open>Presence\<close> with field \<open>_presence\<close>; the classifications are
  disjoint.  The forwarded-name set is their union, and the accessor under \<open>name\<close> is the
  one bound to \<open>_user\<close>, as the claim says.  But the claim also says that on every instance
  each forwarded member resolves through its field, and on instance 3, whose own \<open>__dict__\<close>
  has an entry \<open>name\<close>, the read of \<open>name\<close> gives that entry, \<open>"shadow"\<close>, and not the
  \<open>"bob"\<close> of the object in \<open>_user\<close>; the member \<open>since\<close> of the second layer, which the
  instance does not hold itself, resolves through \<open>_presence\<close>.  (The defect is that of C1 and
  C2: \<open>DelegatedProperty\<close> has no \<open>__set__\<close>.)
\<close>

theorem layered_read_shadowed:
  "delegate_to 0 ''_user'' 1 example_world = (None, member_world)
   \<and> delegate_to 2 ''_presence'' 1 member_world = (None, layered_world)
   \<and> classify example_world 0 = Inr [PyStr ''bot'', PyStr ''id'', PyStr ''name'']
   \<and> classify member_world 2 = Inr [PyStr ''status'', PyStr ''since'']
   \<and> set [PyStr ''bot'', PyStr ''id'', PyStr ''name''] \<inter> set [PyStr ''status'', PyStr ''since''] = {}
   \<and> type_lookup example_world 1 DELEGATE_MEMBERS_FIELD = None
   \<and> getattr_default layered_world 1 DELEGATE_MEMBERS_FIELD (PyFrozenSet [])
        = PyFrozenSet [PyStr ''since'', PyStr ''status'', PyStr ''name'', PyStr ''id'', PyStr ''bot'']
   \<and> type_lookup layered_world 1 ''name'' = Some (accessor example_world 0 ''_user'' ''name'')
   \<and> obj_class (py_objects layered_world 3) = 1
   \<and> py_getattr 5 layered_world (PyObj 3) ''_user'' = Inr (PyObj 0)
   \<and> py_getattr 5 layered_world (PyObj 3) ''name'' = Inr (PyStr ''shadow'')
   \<and> py_getattr 5 layered_world (PyObj 0) ''name'' = Inr (PyStr ''bob'')
   \<and> py_getattr 5 layered_world (PyObj 3) ''_presence'' = Inr (PyObj 2)
   \<and> py_getattr 5 layered_world (PyObj 3) ''since'' = Inr (PyInt 2020)
   \<and> py_getattr 5 layered_world (PyObj 2) ''since'' = Inr (PyInt 2020)"
proof -
  note h1 = member_world_run and h2 = layered_world_run
  have h3: "classify example_world 0 = Inr [PyStr ''bot'', PyStr ''id'', PyStr ''name'']"
    by code_simp
  have h4: "classify member_world 2 = Inr [PyStr ''status'', PyStr ''since'']"
    by code_simp
  have h5: "set [PyStr ''bot'', PyStr ''id'', PyStr ''name'']
      \<inter> set [PyStr ''status'', PyStr ''since''] = {}"
    by simp
  have h6: "type_lookup example_world 1 DELEGATE_MEMBERS_FIELD = None"
    by code_simp
  have h7: "getattr_default layered_world 1 DELEGATE_MEMBERS_FIELD (PyFrozenSet [])
        = PyFrozenSet [PyStr ''since'', PyStr ''status'', PyStr ''name'', PyStr ''id'', PyStr ''bot'']"
    by code_simp
  have h8: "type_lookup layered_world 1 ''name'' = Some (accessor example_world 0 ''_user'' ''name'')"
    by code_simp
  have h9: "obj_class (py_objects layered_world 3) = 1"
    by code_simp
  have r1: "py_getattr 5 layered_world (PyObj 3) ''_user'' = Inr (PyObj 0)"
    by code_simp
  have r2: "py_getattr 5 layered_world (PyObj 3) ''name'' = Inr (PyStr ''shadow'')"
    by code_simp
  have r3: "py_getattr 5 layered_world (PyObj 0) ''name'' = Inr (PyStr ''bob'')"
    by code_simp
  have r4: "py_getattr 5 layered_world (PyObj 3) ''_presence'' = Inr (PyObj 2)"
    by code_simp
  have r5: "py_getattr 5 layered_world (PyObj 3) ''since'' = Inr (PyInt 2020)"
    by code_simp
  have r6: "py_getattr 5 layered_world (PyObj 2) ''since'' = Inr (PyInt 2020)"
    by code_simp
  show ?thesis by (intro conjI h1 h2 h3 h4 h5 h6 h7 h8 h9 r1 r2 r3 r4 r5 r6)
qed

text \<open>
  C6.  After a normal return the bindings visible on the host are the bindings that were
  visible on it before the call (its own, or those found on the nearest ancestor that has
  some, or none) followed by the new pair \<open>(magic_field, delegate_type)\<close>, and they are
  recorded in the host's own \<open>__dict__\<close>.  In the witness \<open>Admin\<close> has no bindings of its
  own and inherits the one of \<open>Member\<close>; the new one is layered after it.
\<close>

theorem bindings_appended:
  assumes "delegate_to D f H w = (None, w')"
  shows "\<exists>bs. iterate (getattr_default w H DELEGATE_TYPES_FIELD EMPTY_SEQUENCE) = Inr bs
            \<and> getattr_default w' H DELEGATE_TYPES_FIELD EMPTY_SEQUENCE
                = PyTuple (bs @ [PyTuple [PyStr f, PyClass D]])
            \<and> map_of (cls_dict (py_classes w' H)) DELEGATE_TYPES_FIELD
                = Some (PyTuple (bs @ [PyTuple [PyStr f, PyClass D]]))"
  using assms
proof (rule delegate_to_returns)
  fix targets inherited bindings members
  assume it: "iterate (getattr_default w H DELEGATE_TYPES_FIELD EMPTY_SEQUENCE) = Inr bindings"
     and d: "map_of (cls_dict (py_classes w' H)) =
       (\<lambda>k. if k = DELEGATE_TYPES_FIELD
               then Some (PyTuple (bindings @ [PyTuple [PyStr f, PyClass D]]))
            else if k = DELEGATE_MEMBERS_FIELD then Some (PyFrozenSet members)
            else if PyStr k \<in> set targets then Some (accessor w D f k)
            else map_of (cls_dict (py_classes w H)) k)"
  from d have own: "map_of (cls_dict (py_classes w' H)) DELEGATE_TYPES_FIELD
      = Some (PyTuple (bindings @ [PyTuple [PyStr f, PyClass D]]))"
    by simp
  then have "getattr_default w' H DELEGATE_TYPES_FIELD EMPTY_SEQUENCE
      = PyTuple (bindings @ [PyTuple [PyStr f, PyClass D]])"
    by (simp add: getattr_default_def type_lookup_own)
  with it own show ?thesis by blast
qed

theorem bindings_appended_witness:
  "delegate_to 2 ''_presence'' 6 member_world
       = (None, snd (delegate_to 2 ''_presence'' 6 member_world))
   \<and> map_of (cls_dict (py_classes member_world 6)) DELEGATE_TYPES_FIELD = None
   \<and> getattr_default member_world 6 DELEGATE_TYPES_FIELD EMPTY_SEQUENCE
       = PyTuple [PyTuple [PyStr ''_user'', PyClass 0]]
   \<and> (\<exists>bs. iterate (getattr_default member_world 6 DELEGATE_TYPES_FIELD EMPTY_SEQUENCE) = Inr bs
         \<and> getattr_default (snd (delegate_to 2 ''_presence'' 6 member_world)) 6
              DELEGATE_TYPES_FIELD EMPTY_SEQUENCE
             = PyTuple (bs @ [PyTuple [PyStr ''_presence'', PyClass 2]])
         \<and> map_of (cls_dict (py_classes (snd (delegate_to 2 ''_presence'' 6 member_world)) 6))
              DELEGATE_TYPES_FIELD
             = Some (PyTuple (bs @ [PyTuple [PyStr ''_presence'', PyClass 2]])))
   \<and> getattr_default (snd (delegate_to 2 ''_presence'' 6 member_world)) 6
        DELEGATE_TYPES_FIELD EMPTY_SEQUENCE
       = PyTuple [PyTuple [PyStr ''_user'', PyClass 0], PyTuple [PyStr ''_presence'', PyClass 2]]"
proof -
  have "fst (delegate_to 2 ''_presence'' 6 member_world) = None"by code_simp
  then have h: "delegate_to 2 ''_presence'' 6 member_world
       = (None, snd (delegate_to 2 ''_presence'' 6 member_world))"
    by (simp add: prod_eq_iff)
  have a: "map_of (cls_dict (py_classes member_world 6)) DELEGATE_TYPES_FIELD = None"by code_simp
  have b: "getattr_default member_world 6 DELEGATE_TYPES_FIELD EMPTY_SEQUENCE
       = PyTuple [PyTuple [PyStr ''_user'', PyClass 0]]"by code_simp
  note c = bindings_appended [OF h]
  have e: "getattr_default (snd (delegate_to 2 ''_presence'' 6 member_world)) 6
        DELEGATE_TYPES_FIELD EMPTY_SEQUENCE
       = PyTuple [PyTuple [PyStr ''_user'', PyClass 0], PyTuple [PyStr ''_presence'', PyClass 2]]"by code_simp
  show ?thesis by (intro conjI h a b c e)
qed

text \<open>
  C7.  Called with no instance, \<open>__get__\<close> returns the accessor itself; so reading, on a
  class, a name under which an accessor is found gives that accessor object (given one
  frame for the call).
\<close>

theorem accessor_read_on_type:
  "DelegatedProperty_get getattr p PyNone = Inr (PyDescr p)
   \<and> (type_lookup w c m = Some (PyDescr p) \<longrightarrow> py_getattr (Suc n) w (PyClass c) m = Inr (PyDescr p))"
  by (simp add: DelegatedProperty_get_def)

theorem accessor_read_on_type_witness:
  "type_lookup member_world 1 ''name''
      = Some (PyDescr (DelegatedProperty ''_user'' ''name'' (doc_for ''User'' ''name'')))
   \<and> py_getattr (Suc 0) member_world (PyClass 1) ''name''
      = Inr (PyDescr (DelegatedProperty ''_user'' ''name'' (doc_for ''User'' ''name'')))"
proof -
  have h: "type_lookup member_world 1 ''name''
      = Some (PyDescr (DelegatedProperty ''_user'' ''name'' (doc_for ''User'' ''name'')))"by code_simp
  from accessor_read_on_type [of "py_getattr 0 member_world" _ member_world 1 "''name''" 0,
      THEN conjunct2, rule_format, OF h]
  have c: "py_getattr (Suc 0) member_world (PyClass 1) ''name''
      = Inr (PyDescr (DelegatedProperty ''_user'' ''name'' (doc_for ''User'' ''name'')))" .
  show ?thesis by (intro conjI h c)
qed

text \<open>
  C8.  The classification is a function of the delegate type's declared members and of the
  annotations visible on it, and of nothing else in the store: whenever these are the same,
  classifying yields the same set of names, or raises the same exception.
\<close>

theorem classify_depends_on_declarations_only:
  assumes "map_of (cls_dict (py_classes w1 D1)) = map_of (cls_dict (py_classes w2 D2))"
      and "getattr_default w1 D1 ''__annotations__'' EMPTY_SEQUENCE
             = getattr_default w2 D2 ''__annotations__'' EMPTY_SEQUENCE"
  shows "map_sum id set (classify w1 D1) = map_sum id set (classify w2 D2)"
proof -
  have "set (dict_fields (cls_dict (py_classes w1 D1))) = set (dict_fields (cls_dict (py_classes w2 D2)))"
    by (simp add: set_dict_fields assms(1))
  then show ?thesis
    by (simp add: classify_def assms(2) split: sum.splits)
qed

theorem classify_depends_on_declarations_only_witness:
  "map_of (cls_dict (py_classes member_world 0)) = map_of (cls_dict (py_classes example_world 0))
   \<and> getattr_default member_world 0 ''__annotations__'' EMPTY_SEQUENCE
       = getattr_default example_world 0 ''__annotations__'' EMPTY_SEQUENCE
   \<and> map_sum id set (classify member_world 0) = map_sum id set (classify example_world 0)
   \<and> classify example_world 0 = Inr [PyStr ''bot'', PyStr ''id'', PyStr ''name'']"
proof -
  have "py_classes member_world 0 = py_classes example_world 0"
    using delegate_to_frame [of 1 example_world 0 "''_user''"]
    by (simp add: frame_def member_world_def)
  then have h1: "map_of (cls_dict (py_classes member_world 0))
      = map_of (cls_dict (py_classes example_world 0))"
    by simp
  have h2: "getattr_default member_world 0 ''__annotations__'' EMPTY_SEQUENCE
       = getattr_default example_world 0 ''__annotations__'' EMPTY_SEQUENCE"by code_simp
  note c = classify_depends_on_declarations_only [OF h1 h2]
  have v: "classify example_world 0 = Inr [PyStr ''bot'', PyStr ''id'', PyStr ''name'']"
    by code_simp
  show ?thesis by (intro conjI h1 h2 c v)
qed

text \<open>
  C9.  Applying the decorator to a class never changes any other class, in particular no
  ancestor: the ancestor's \<open>___delegate_members___\<close> and \<open>___delegate_type_mapping___\<close>
  are what they were.  On a normal return the new frozenset and the new tuple are bound in
  the \<open>__dict__\<close> of the decorated class itself.
\<close>

theorem delegate_to_leaves_ancestors:
  assumes "A \<noteq> H" and "delegate_to D f H w = (r, w')"
  shows "py_classes w' A = py_classes w A
       \<and> (r = None \<longrightarrow>
            (\<exists>members bindings.
               map_of (cls_dict (py_classes w' H)) DELEGATE_MEMBERS_FIELD = Some (PyFrozenSet members)
             \<and> map_of (cls_dict (py_classes w' H)) DELEGATE_TYPES_FIELD = Some (PyTuple bindings)))"
proof
  from delegate_to_frame [of H w D f] assms show "py_classes w' A = py_classes w A"
    by (simp add: frame_def)
next
  show "r = None \<longrightarrow>
            (\<exists>members bindings.
               map_of (cls_dict (py_classes w' H)) DELEGATE_MEMBERS_FIELD = Some (PyFrozenSet members)
             \<and> map_of (cls_dict (py_classes w' H)) DELEGATE_TYPES_FIELD = Some (PyTuple bindings))"
  proof
    assume "r = None"
    with assms(2) have "delegate_to D f H w = (None, w')" by simp
    then show "\<exists>members bindings.
               map_of (cls_dict (py_classes w' H)) DELEGATE_MEMBERS_FIELD = Some (PyFrozenSet members)
             \<and> map_of (cls_dict (py_classes w' H)) DELEGATE_TYPES_FIELD = Some (PyTuple bindings)"
      by (rule delegate_to_returns)
         (simp add: DELEGATE_TYPES_FIELD_def DELEGATE_MEMBERS_FIELD_def)
  qed
qed

theorem delegate_to_leaves_ancestors_witness:
  "(1::nat) \<noteq> 6
   \<and> delegate_to 2 ''_presence'' 6 member_world
       = (None, snd (delegate_to 2 ''_presence'' 6 member_world))
   \<and> py_classes (snd (delegate_to 2 ''_presence'' 6 member_world)) 1 = py_classes member_world 1
   \<and> (\<exists>members bindings.
         map_of (cls_dict (py_classes (snd (delegate_to 2 ''_presence'' 6 member_world)) 6))
           DELEGATE_MEMBERS_FIELD = Some (PyFrozenSet members)
       \<and> map_of (cls_dict (py_classes (snd (delegate_to 2 ''_presence'' 6 member_world)) 6))
           DELEGATE_TYPES_FIELD = Some (PyTuple bindings))
   \<and> getattr_default (snd (delegate_to 2 ''_presence'' 6 member_world)) 1
         DELEGATE_TYPES_FIELD EMPTY_SEQUENCE
       = PyTuple [PyTuple [PyStr ''_user'', PyClass 0]]"
proof -
  have h1: "(1::nat) \<noteq> 6" by simp
  have "fst (delegate_to 2 ''_presence'' 6 member_world) = None"
    by code_simp
  then have h2: "delegate_to 2 ''_presence'' 6 member_world
       = (None, snd (delegate_to 2 ''_presence'' 6 member_world))"
    by (simp add: prod_eq_iff)
  note c = delegate_to_leaves_ancestors [OF h1 h2]
  note c1 = c [THEN conjunct1]
  note c2 = c [THEN conjunct2, rule_format, OF refl]
  have v: "getattr_default (snd (delegate_to 2 ''_presence'' 6 member_world)) 1
         DELEGATE_TYPES_FIELD EMPTY_SEQUENCE
       = PyTuple [PyTuple [PyStr ''_user'', PyClass 0]]"
    by code_simp
  show ?thesis by (intro conjI h1 h2 c1 c2 v)
qed

text \<open>
  C10.  When the same delegation is applied a second time (both calls returning normally),
  the forwarded-name set is the same set; the bindings tuple ends with the same pair twice;
  no instance and no attribute visible on any class changes, the two ledger attributes
  apart, so every accessor is the same object; and in a store where no accessor reads a
  ledger attribute, every read of any other attribute gives the same result as before.
\<close>

theorem reapplication:
  assumes "delegate_to D f H w = (None, w1)" and "delegate_to D f H w1 = (None, w2)"
  shows "(\<exists>ms1 ms2.
            getattr_default w1 H DELEGATE_MEMBERS_FIELD (PyFrozenSet []) = PyFrozenSet ms1
          \<and> getattr_default w2 H DELEGATE_MEMBERS_FIELD (PyFrozenSet []) = PyFrozenSet ms2
          \<and> set ms2 = set ms1)
       \<and> (\<exists>bs. getattr_default w1 H DELEGATE_TYPES_FIELD EMPTY_SEQUENCE
                  = PyTuple (bs @ [PyTuple [PyStr f, PyClass D]])
              \<and> getattr_default w2 H DELEGATE_TYPES_FIELD EMPTY_SEQUENCE
                  = PyTuple (bs @ [PyTuple [PyStr f, PyClass D], PyTuple [PyStr f, PyClass D]]))
       \<and> py_objects w2 = py_objects w1
       \<and> (\<forall>c k. k \<notin> ledger_names \<longrightarrow> type_lookup w2 c k = type_lookup w1 c k)
       \<and> (accessors_avoid_ledger w1 \<longrightarrow>
            (\<forall>n x name. name \<notin> ledger_names \<longrightarrow> py_getattr n w2 x name = py_getattr n w1 x name))"
proof -
  from assms(1) obtain t1 inh1 bs1 ms1 where
    c1: "classify w D = Inr t1" and
    i1: "getattr_default w H DELEGATE_MEMBERS_FIELD (PyFrozenSet []) = PyFrozenSet inh1" and
    s1: "set ms1 = set t1 \<union> set inh1" and
    fr1: "frame H w w1" and
    d1: "map_of (cls_dict (py_classes w1 H)) =
       (\<lambda>k. if k = DELEGATE_TYPES_FIELD
               then Some (PyTuple (bs1 @ [PyTuple [PyStr f, PyClass D]]))
            else if k = DELEGATE_MEMBERS_FIELD then Some (PyFrozenSet ms1)
            else if PyStr k \<in> set t1 then Some (accessor w D f k)
            else map_of (cls_dict (py_classes w H)) k)"
    by (rule delegate_to_returns)
  from assms(2) obtain t2 inh2 bs2 ms2 where
    c2: "classify w1 D = Inr t2" and
    i2: "getattr_default w1 H DELEGATE_MEMBERS_FIELD (PyFrozenSet []) = PyFrozenSet inh2" and
    it2: "iterate (getattr_default w1 H DELEGATE_TYPES_FIELD EMPTY_SEQUENCE) = Inr bs2" and
    s2: "set ms2 = set t2 \<union> set inh2" and
    fr2: "frame H w1 w2" and
    d2: "map_of (cls_dict (py_classes w2 H)) =
       (\<lambda>k. if k = DELEGATE_TYPES_FIELD
               then Some (PyTuple (bs2 @ [PyTuple [PyStr f, PyClass D]]))
            else if k = DELEGATE_MEMBERS_FIELD then Some (PyFrozenSet ms2)
            else if PyStr k \<in> set t2 then Some (accessor w1 D f k)
            else map_of (cls_dict (py_classes w1 H)) k)"
    by (rule delegate_to_returns)
  from c1 obtain ann1 where
    a1: "set_display (getattr_default w D ''__annotations__'' EMPTY_SEQUENCE) = Inr ann1" and
    t1: "set t1 = PyStr ` set (dict_fields (cls_dict (py_classes w D))) \<union> set ann1"
    by (rule classify_Inr)
  from c2 obtain ann2 where
    a2: "set_display (getattr_default w1 D ''__annotations__'' EMPTY_SEQUENCE) = Inr ann2" and
    t2: "set t2 = PyStr ` set (dict_fields (cls_dict (py_classes w1 D))) \<union> set ann2"
    by (rule classify_Inr)
  have others: "\<forall>c. c \<noteq> H \<longrightarrow> py_classes w1 c = py_classes w c"
    using fr1 by (simp add: frame_def)
  text \<open>The annotations seen by the second classification are those seen by the first.\<close>
  have ann: "type_lookup w1 D ''__annotations__'' = type_lookup w D ''__annotations__''"
  proof (cases "PyStr ''__annotations__'' \<in> set t1")
    case True
    with annotations_not_ledger
    have own: "map_of (cls_dict (py_classes w1 H)) ''__annotations__''
        = Some (accessor w D f ''__annotations__'')"
      by (simp add: d1 ledger_names_def)
    from lookup_mro_changed [OF others own, of "mro w D"]
    have "type_lookup w1 D ''__annotations__'' = type_lookup w D ''__annotations__''
        \<or> type_lookup w1 D ''__annotations__'' = Some (accessor w D f ''__annotations__'')"
      by (simp add: type_lookup_def frame_mro [OF fr1])
    moreover have "type_lookup w1 D ''__annotations__'' \<noteq> Some (accessor w D f ''__annotations__'')"
      using a2 by (auto simp: getattr_default_def accessor_def set_display_def)
    ultimately show ?thesis by blast
  next
    case False
    with annotations_not_ledger show ?thesis
      by (intro type_lookup_frame [OF fr1]) (simp add: d1 ledger_names_def)
  qed
  with a1 a2 have anns: "ann2 = ann1"
    by (simp add: getattr_default_def)
  text \<open>Every entry of \<open>__dict__\<close> that the second classification accepts was a target before.\<close>
  have fields: "PyStr k \<in> set t1" if "k \<in> set (dict_fields (cls_dict (py_classes w1 D)))" for k
  proof (cases "D = H")
    case False
    with others that t1 show ?thesis by simp
  next
    case True
    from that obtain v where v: "map_of (cls_dict (py_classes w1 D)) k = Some v"
      "\<not> should_ignore_attribute_for_field k v"
      by (auto simp: set_dict_fields)
    with ledger_names_ignored have nl: "k \<noteq> DELEGATE_TYPES_FIELD" "k \<noteq> DELEGATE_MEMBERS_FIELD"
      by (auto simp: ledger_names_def)
    show ?thesis
    proof (cases "PyStr k \<in> set t1")
      case False
      with v nl True have "map_of (cls_dict (py_classes w D)) k = Some v"
        by (simp add: d1)
      with v(2) have "k \<in> set (dict_fields (cls_dict (py_classes w D)))"
        by (auto simp: set_dict_fields)
      with t1 show ?thesis by simp
    qed simp
  qed
  moreover from t1 have "set ann1 \<subseteq> set t1" by simp
  ultimately have sub: "set t2 \<subseteq> set t1"
    by (auto simp: t2 anns)
  have own1: "getattr_default w1 H DELEGATE_MEMBERS_FIELD (PyFrozenSet []) = PyFrozenSet ms1"
    by (simp add: getattr_default_def type_lookup_own d1 ledger_distinct [symmetric])
  with i2 have inh2: "inh2 = ms1" by simp
  have own2: "getattr_default w2 H DELEGATE_MEMBERS_FIELD (PyFrozenSet []) = PyFrozenSet ms2"
    by (simp add: getattr_default_def type_lookup_own d2 ledger_distinct [symmetric])
  from s1 s2 inh2 sub have "set ms2 = set ms1" by auto
  with own1 own2 have A: "\<exists>ms1 ms2.
            getattr_default w1 H DELEGATE_MEMBERS_FIELD (PyFrozenSet []) = PyFrozenSet ms1
          \<and> getattr_default w2 H DELEGATE_MEMBERS_FIELD (PyFrozenSet []) = PyFrozenSet ms2
          \<and> set ms2 = set ms1"
    by blast
  have b1: "getattr_default w1 H DELEGATE_TYPES_FIELD EMPTY_SEQUENCE
      = PyTuple (bs1 @ [PyTuple [PyStr f, PyClass D]])"
    by (simp add: getattr_default_def type_lookup_own d1)
  with it2 have "bs2 = bs1 @ [PyTuple [PyStr f, PyClass D]]" by simp
  then have "getattr_default w2 H DELEGATE_TYPES_FIELD EMPTY_SEQUENCE
      = PyTuple (bs1 @ [PyTuple [PyStr f, PyClass D], PyTuple [PyStr f, PyClass D]])"
    by (simp add: getattr_default_def type_lookup_own d2)
  with b1 have B: "\<exists>bs. getattr_default w1 H DELEGATE_TYPES_FIELD EMPTY_SEQUENCE
                  = PyTuple (bs @ [PyTuple [PyStr f, PyClass D]])
              \<and> getattr_default w2 H DELEGATE_TYPES_FIELD EMPTY_SEQUENCE
                  = PyTuple (bs @ [PyTuple [PyStr f, PyClass D], PyTuple [PyStr f, PyClass D]])"
    by blast
  from fr2 have C: "py_objects w2 = py_objects w1"
    by (simp add: frame_def)
  have E: "type_lookup w2 c k = type_lookup w1 c k" if "k \<notin> ledger_names" for c k
  proof (rule type_lookup_frame [OF fr2])
    from that have nl: "k \<noteq> DELEGATE_TYPES_FIELD" "k \<noteq> DELEGATE_MEMBERS_FIELD"
      by (auto simp: ledger_names_def)
    show "map_of (cls_dict (py_classes w2 H)) k = map_of (cls_dict (py_classes w1 H)) k"
    proof (cases "PyStr k \<in> set t2")
      case True
      with sub have "PyStr k \<in> set t1" by auto
      with True nl show ?thesis
        by (simp add: d2 d1 accessor_same_name [OF fr1])
    next
      case False
      with nl show ?thesis by (simp add: d2)
    qed
  qed
  then have D': "\<forall>c k. k \<notin> ledger_names \<longrightarrow> type_lookup w2 c k = type_lookup w1 c k"
    by blast
  have F: "accessors_avoid_ledger w1 \<longrightarrow>
      (\<forall>n x name. name \<notin> ledger_names \<longrightarrow> py_getattr n w2 x name = py_getattr n w1 x name)"
    using py_getattr_agree [OF C D'] by blast
  show ?thesis
    by (intro conjI A B C D' F)
qed

theorem reapplication_witness:
  "delegate_to 0 ''_user'' 1 example_world = (None, member_world)
   \<and> delegate_to 0 ''_user'' 1 member_world = (None, reapplied_world)
   \<and> (\<exists>ms1 ms2.
          getattr_default member_world 1 DELEGATE_MEMBERS_FIELD (PyFrozenSet []) = PyFrozenSet ms1
        \<and> getattr_default reapplied_world 1 DELEGATE_MEMBERS_FIELD (PyFrozenSet []) = PyFrozenSet ms2
        \<and> set ms2 = set ms1)
   \<and> (\<exists>bs. getattr_default member_world 1 DELEGATE_TYPES_FIELD EMPTY_SEQUENCE
                = PyTuple (bs @ [PyTuple [PyStr ''_user'', PyClass 0]])
            \<and> getattr_default reapplied_world 1 DELEGATE_TYPES_FIELD EMPTY_SEQUENCE
                = PyTuple (bs @ [PyTuple [PyStr ''_user'', PyClass 0],
                                 PyTuple [PyStr ''_user'', PyClass 0]]))
   \<and> getattr_default reapplied_world 1 DELEGATE_TYPES_FIELD EMPTY_SEQUENCE
        = PyTuple [PyTuple [PyStr ''_user'', PyClass 0], PyTuple [PyStr ''_user'', PyClass 0]]
   \<and> py_objects reapplied_world = py_objects member_world
   \<and> ''name'' \<notin> ledger_names
   \<and> type_lookup reapplied_world 1 ''name'' = type_lookup member_world 1 ''name''
   \<and> accessors_avoid_ledger member_world
   \<and> py_getattr 1 reapplied_world (PyObj 1) ''name'' = py_getattr 1 member_world (PyObj 1) ''name''
   \<and> py_getattr 1 member_world (PyObj 1) ''name'' = Inr (PyStr ''bob'')"
proof -
  note h1 = member_world_run and h2 = reapplied_world_run
  note c = reapplication [OF h1 h2]
  note c1 = c [THEN conjunct1]
  note c2 = c [THEN conjunct2, THEN conjunct1]
  note c3 = c [THEN conjunct2, THEN conjunct2, THEN conjunct1]
  have n: "''name'' \<notin> ledger_names"
    by (simp add: ledger_names_def DELEGATE_TYPES_FIELD_def DELEGATE_MEMBERS_FIELD_def)
  from c [THEN conjunct2, THEN conjunct2, THEN conjunct2, THEN conjunct1, rule_format, OF n]
  have c4: "type_lookup reapplied_world 1 ''name'' = type_lookup member_world 1 ''name''" .
  note av = member_world_avoids
  from c [THEN conjunct2, THEN conjunct2, THEN conjunct2, THEN conjunct2, rule_format, OF av n]
  have c5: "py_getattr 1 reapplied_world (PyObj 1) ''name'' = py_getattr 1 member_world (PyObj 1) ''name''" .
  have v1: "getattr_default reapplied_world 1 DELEGATE_TYPES_FIELD EMPTY_SEQUENCE
        = PyTuple [PyTuple [PyStr ''_user'', PyClass 0], PyTuple [PyStr ''_user'', PyClass 0]]"by code_simp
  have v2: "py_getattr 1 member_world (PyObj 1) ''name'' = Inr (PyStr ''bob'')"by code_simp
  show ?thesis by (intro conjI h1 h2 c1 c2 v1 c3 n c4 av c5 v2)
qed

end
